theory Spec2Isabelle
  imports Complex_Main "HOL-Library.Sublist"
begin

section \<open>Strings\<close>

text \<open>
  A JavaScript string is modelled as a \<^typ>\<open>string\<close>: a list of code units, each read as
  the Unicode code point of the same number (U+0000 to U+00FF). On this range
  \<^verbatim>\<open>toLowerCase\<close> maps A to Z and the capital letters U+00C0 to U+00DE (U+00D7, the
  multiplication sign, apart) to the letter 32 code points further, and changes nothing
  else; the white space of \<^verbatim>\<open>trim\<close> and of the regular expression class \<^verbatim>\<open>\s\<close> is
  U+0009 to U+000D, U+0020 and U+00A0.
\<close>

definition code_unit :: "char \<Rightarrow> nat" where
  "code_unit c = of_char c"

definition isWhiteSpace :: "char \<Rightarrow> bool" where
  "isWhiteSpace c =
     (let n = code_unit c in (9 \<le> n \<and> n \<le> 13) \<or> n = 32 \<or> n = 160)"

definition isLowerAZ :: "char \<Rightarrow> bool" where
  "isLowerAZ c = (let n = code_unit c in 97 \<le> n \<and> n \<le> 122)"

definition toLowerCaseChar :: "char \<Rightarrow> char" where
  "toLowerCaseChar c =
     (let n = code_unit c in
      if (65 \<le> n \<and> n \<le> 90) \<or> (192 \<le> n \<and> n \<le> 222 \<and> n \<noteq> 215)
      then char_of (n + 32) else c)"

definition toLowerCase :: "string \<Rightarrow> string" where
  "toLowerCase s = map toLowerCaseChar s"

text \<open>\<^verbatim>\<open>.replace(/&/g, "and")\<close>\<close>

definition replaceAmp :: "string \<Rightarrow> string" where
  "replaceAmp s = concat (map (\<lambda>c. if c = CHR ''&'' then ''and'' else [c]) s)"

text \<open>\<^verbatim>\<open>.replace(/[^a-z\s]/g, "")\<close>\<close>

definition removeNonAlpha :: "string \<Rightarrow> string" where
  "removeNonAlpha s = filter (\<lambda>c. isLowerAZ c \<or> isWhiteSpace c) s"

definition trimStart :: "string \<Rightarrow> string" where
  "trimStart s = dropWhile isWhiteSpace s"

definition trim :: "string \<Rightarrow> string" where
  "trim s = rev (trimStart (rev (trimStart s)))"

text \<open>
  \<^verbatim>\<open>a.includes(b)\<close>: \<open>b\<close> occurs in \<open>a\<close> as a run of consecutive code units.
\<close>

fun startsWith :: "string \<Rightarrow> string \<Rightarrow> bool" where
  "startsWith a [] = True"
| "startsWith [] (y # ys) = False"
| "startsWith (x # xs) (y # ys) = (x = y \<and> startsWith xs ys)"

fun includes_str :: "string \<Rightarrow> string \<Rightarrow> bool" where
  "includes_str [] b = (b = [])"
| "includes_str (x # xs) b = (startsWith (x # xs) b \<or> includes_str xs b)"

text \<open>
  \<^verbatim>\<open>str.split(/\s+/)\<close>: the pieces between the maximal runs of white space, an empty
  piece before a leading run and after a trailing one. The second argument is the piece
  being read (reversed), the third says whether the last code unit read was white space.
\<close>

fun splitWs :: "string \<Rightarrow> string \<Rightarrow> bool \<Rightarrow> string list" where
  "splitWs [] cur inSep = [rev cur]"
| "splitWs (c # cs) cur inSep =
     (if isWhiteSpace c
      then (if inSep then splitWs cs cur True else rev cur # splitWs cs [] True)
      else splitWs cs (c # cur) False)"

definition split_ws :: "string \<Rightarrow> string list" where
  "split_ws s = splitWs s [] False"

text \<open>
  \<^verbatim>\<open>new Set(xs)\<close>: a JavaScript Set keeps its elements in the order of their first
  insertion; it is a list without duplicates, \<^verbatim>\<open>size\<close> is its length and
  \<^verbatim>\<open>has\<close> is membership.
\<close>

definition newSet :: "'a list \<Rightarrow> 'a list" where
  "newSet xs = rev (remdups (rev xs))"

section \<open>Values that may be null\<close>

text \<open>The parameter \<^verbatim>\<open>state: string | null | undefined\<close>.\<close>

datatype js_input = Undefined | Null | Str string

text \<open>
  A result \<^verbatim>\<open>string | null\<close> is a \<^typ>\<open>string option\<close>; \<open>None\<close> is also what
  \<^verbatim>\<open>undefined\<close> and \<^verbatim>\<open>false\<close> are read as where the source only tests the value
  for truthiness. A string is truthy when it is not empty.
\<close>

definition truthy :: "string option \<Rightarrow> bool" where
  "truthy v = (case v of None \<Rightarrow> False | Some s \<Rightarrow> s \<noteq> [])"

text \<open>\<^verbatim>\<open>a || b\<close>\<close>

definition js_or :: "string option \<Rightarrow> string option \<Rightarrow> string option" where
  "js_or a b = (if truthy a then a else b)"

section \<open>The catalog\<close>

text \<open>
  \<^verbatim>\<open>CM_DATA\<close> is an object literal: \<^verbatim>\<open>Object.keys\<close> lists its keys in the order they
  are written, \<^verbatim>\<open>CM_DATA[key]\<close> reads the value of a key. The matchers below take the
  catalog as their first argument, so that what is proved of them holds for every
  catalog; the application passes \<open>CM_DATA\<close>.
\<close>

type_synonym catalog = "(string \<times> string) list"

definition keys :: "catalog \<Rightarrow> string list" where
  "keys cm = map fst cm"

definition lookup :: "catalog \<Rightarrow> string \<Rightarrow> string option" where
  "lookup cm k = map_of cm k"

text \<open>
  \<^verbatim>\<open>k && CM_DATA[k]\<close> for the result \<open>k\<close> of \<^verbatim>\<open>find\<close>: \<^verbatim>\<open>undefined\<close> when no key
  was found, the empty key itself when that was found, the key's value otherwise.
\<close>

definition key_and_lookup :: "catalog \<Rightarrow> string option \<Rightarrow> string option" where
  "key_and_lookup cm k =
     (case k of None \<Rightarrow> None | Some k' \<Rightarrow> if k' = [] then Some [] else lookup cm k')"

definition CM_DATA :: "(string \<times> string) list" where
  "CM_DATA = [
    (''Andhra Pradesh'',
     ''https://upload.wikimedia.org/wikipedia/commons/a/a8/The_portrait_of_CM_Shri_Nara_Chandrababu_Naidu.jpg''),
    (''Arunachal Pradesh'',
     ''https://upload.wikimedia.org/wikipedia/commons/2/2b/Pema_Khandu_in_2018.jpg''),
    (''Assam'',
     ''https://upload.wikimedia.org/wikipedia/commons/thumb/5/54/Himanta_Biswa_Sarma_in_2025.jpg/500px-Himanta_Biswa_Sarma_in_2025.jpg''),
    (''Bihar'',
     ''https://upload.wikimedia.org/wikipedia/commons/thumb/f/fe/Nitish_Kumar_with_JDU_functionaries_%28cropped%29.jpg/500px-Nitish_Kumar_with_JDU_functionaries_%28cropped%29.jpg''),
    (''Chhattisgarh'',
     ''https://upload.wikimedia.org/wikipedia/commons/a/a4/Vishnu_Deo_Sai%2C_Chief_Minister_of_Chhattisgarh.jpg''),
    (''Delhi'',
     ''https://upload.wikimedia.org/wikipedia/commons/7/72/Chief_Minister_of_Delhi%2C_Smt._Rekha_Gupta.jpg''),
    (''Goa'',
     ''https://upload.wikimedia.org/wikipedia/commons/thumb/9/9e/Pramod_Sawant_at_the_inauguration_of_the_Chhatrapati_Shivaji_Maharaj_Chair_in_Goa_University_%28cropped%29.jpg/500px-Pramod_Sawant_at_the_inauguration_of_the_Chhatrapati_Shivaji_Maharaj_Chair_in_Goa_University_%28cropped%29.jpg''),
    (''Gujarat'',
     ''https://upload.wikimedia.org/wikipedia/commons/0/0d/Bhupendra_PAtel_Sanskrit.jpg''),
    (''Haryana'',
     ''https://upload.wikimedia.org/wikipedia/commons/thumb/f/f5/Nayab_Singh_Saini.jpg/500px-Nayab_Singh_Saini.jpg''),
    (''Himachal Pradesh'',
     ''https://upload.wikimedia.org/wikipedia/commons/thumb/b/b0/Sukhvinder_Singh_Sukhu.jpg/500px-Sukhvinder_Singh_Sukhu.jpg''),
    (''Jammu & Kashmir'',
     ''https://upload.wikimedia.org/wikipedia/commons/6/68/Omar_Abdullah%2C_Chief_Minister_of_Jammu_%26_Kashmir.jpg''),
    (''Jharkhand'',
     ''https://upload.wikimedia.org/wikipedia/commons/thumb/6/69/Hemant_Soren_2024.jpg/500px-Hemant_Soren_2024.jpg''),
    (''Karnataka'',
     ''https://upload.wikimedia.org/wikipedia/commons/thumb/a/ac/Siddaramaiah_at_the_function_to_commemorate_the_serving_of_2_billion_meals_of_the_Akshaya_Patra_Foundation_in_Karnataka_%28cropped%29.jpg/419px-Siddaramaiah_at_the_function_to_commemorate_the_serving_of_2_billion_meals_of_the_Akshaya_Patra_Foundation_in_Karnataka_%28cropped%29.jpg''),
    (''Kerala'',
     ''https://upload.wikimedia.org/wikipedia/commons/thumb/4/43/Chief_Minister_Pinarayi_Vijayan_2023.tif/lossy-page1-500px-Chief_Minister_Pinarayi_Vijayan_2023.tif.jpg''),
    (''Madhya Pradesh'',
     ''https://upload.wikimedia.org/wikipedia/commons/5/58/Mohan_Yadav%2C_Chief_Minister_of_Madhya_Pradesh.jpg''),
    (''Maharashtra'',
     ''https://upload.wikimedia.org/wikipedia/commons/thumb/b/b3/Devendra_Fadnavis_%40Vidhan_Sabha_04-03-2021.jpg/500px-Devendra_Fadnavis_%40Vidhan_Sabha_04-03-2021.jpg''),
    (''Manipur'',
     ''''),
    (''Meghalaya'',
     ''https://upload.wikimedia.org/wikipedia/commons/thumb/8/88/The_Chief_Minister_of_Meghalaya%2C_Shri_Conrad_Sangma.JPG/500px-The_Chief_Minister_of_Meghalaya%2C_Shri_Conrad_Sangma.JPG''),
    (''Mizoram'',
     ''https://upload.wikimedia.org/wikipedia/commons/thumb/2/28/Lalduhawma1.jpg/500px-Lalduhawma1.jpg''),
    (''Nagaland'',
     ''https://upload.wikimedia.org/wikipedia/commons/thumb/f/f5/NeiphiuRio.jpg/500px-NeiphiuRio.jpg''),
    (''Odisha'',
     ''https://upload.wikimedia.org/wikipedia/commons/thumb/0/0c/%E0%AC%B6%E0%AD%8D%E0%AC%B0%E0%AD%80_%E0%AC%AE%E0%AD%8B%E0%AC%B9%E0%AC%A8_%E0%AC%9A%E0%AC%B0%E0%AC%A3_%E0%AC%AE%E0%AC%BE%E0%AC%9D%E0%AD%80.jpg/500px-%E0%AC%B6%E0%AD%8D%E0%AC%B0%E0%AD%80_%E0%AC%AE%E0%AD%8B%E0%AC%B9%E0%AC%A8_%E0%AC%9A%E0%AC%B0%E0%AC%A3_%E0%AC%AE%E0%AC%BE%E0%AC%9D%E0%AD%80.jpg''),
    (''Puducherry'',
     ''https://upload.wikimedia.org/wikipedia/commons/0/08/N._Rangaswami.jpg''),
    (''Punjab'',
     ''https://upload.wikimedia.org/wikipedia/commons/f/f8/Bhagwant_Mann.png''),
    (''Rajasthan'',
     ''https://upload.wikimedia.org/wikipedia/commons/a/aa/Bhajan_Lal_Sharma.jpg''),
    (''Sikkim'',
     ''https://upload.wikimedia.org/wikipedia/commons/7/72/Prem_Singh_Tamang%2C_Chief_Minister_of_Sikkim.jpg''),
    (''Tamil Nadu'',
     ''https://upload.wikimedia.org/wikipedia/commons/thumb/4/4a/The_Chief_Minister_of_Tamil_Nadu%2C_Thiru_MK_Stalin.jpeg/500px-The_Chief_Minister_of_Tamil_Nadu%2C_Thiru_MK_Stalin.jpeg''),
    (''Telangana'',
     ''https://upload.wikimedia.org/wikipedia/commons/thumb/c/c0/Portrait_of_Telangana_CM_Revanth_Reddy.png/500px-Portrait_of_Telangana_CM_Revanth_Reddy.png''),
    (''Tripura'',
     ''https://upload.wikimedia.org/wikipedia/commons/thumb/a/aa/Manik_Saha_Official_Portrait_2023.jpg/500px-Manik_Saha_Official_Portrait_2023.jpg''),
    (''Uttar Pradesh'',
     ''https://upload.wikimedia.org/wikipedia/commons/thumb/1/12/PM_and_UP_CM_at_laying_the_foundation_stone_of_the_International_Cricket_Stadium_at_Varanasi%2C_in_Uttar_Pradesh_%283x4_cropped%29.jpg/500px-PM_and_UP_CM_at_laying_the_foundation_stone_of_the_International_Cricket_Stadium_at_Varanasi%2C_in_Uttar_Pradesh_%283x4_cropped%29.jpg''),
    (''Uttarakhand'',
     ''https://upload.wikimedia.org/wikipedia/commons/9/95/Pushkar_Singh_Dhami%2C_Chief_Minister_of_Uttarakhand.jpg''),
    (''West Bengal'',
     ''https://upload.wikimedia.org/wikipedia/commons/thumb/4/4d/Official_portrait_of_Mamata_Banerjee.jpg/500px-Official_portrait_of_Mamata_Banerjee.jpg'')]"

section \<open>The region matchers\<close>

text \<open>\<^verbatim>\<open>x.toLowerCase().replace(/&/g, "and").trim()\<close>\<close>

definition normalized :: "string \<Rightarrow> string" where
  "normalized s = trim (replaceAmp (toLowerCase s))"

definition getCMImageUrl :: "catalog \<Rightarrow> js_input \<Rightarrow> string option" where
  "getCMImageUrl cm state =
     (case state of
        Str s \<Rightarrow>
          if s = [] then None
          else
            let normalizedState = normalized s;
                exactMatchKey = find (\<lambda>k. normalized k = normalizedState) (keys cm);
                img = key_and_lookup cm exactMatchKey
            in if truthy img then img
               else
                 let partialMatchKey =
                       find (\<lambda>k. let normalizedKey = normalized k
                                 in includes_str normalizedKey normalizedState \<or>
                                    includes_str normalizedState normalizedKey) (keys cm);
                     img2 = key_and_lookup cm partialMatchKey
                 in if truthy img2 then img2 else None
      | _ \<Rightarrow> None)"

definition normalizeAndTokenize :: "string \<Rightarrow> string list" where
  "normalizeAndTokenize str =
     newSet (filter (\<lambda>word. length word > 0)
       (split_ws (trim (removeNonAlpha (replaceAmp (toLowerCase str))))))"

text \<open>
  The score is a quotient of two set sizes. The source computes it in double precision;
  the numerator is at most the number of words of a catalog key, so two such quotients
  that differ as fractions differ as doubles, and the literal \<^verbatim>\<open>0.4\<close> is the double
  nearest to \<open>2/5\<close>: the comparisons of the source are those of the exact fractions,
  which the model keeps as \<^typ>\<open>rat\<close>.
\<close>

record bestMatch =
  key :: string
  score :: rat

definition jaccard :: "string list \<Rightarrow> string list \<Rightarrow> rat" where
  "jaccard stateWords keyWords =
     (let intersection = newSet (filter (\<lambda>word. word \<in> set keyWords) stateWords);
          union = newSet (stateWords @ keyWords)
      in of_nat (length intersection) / of_nat (length union))"

text \<open>The body of the loop over the keys.\<close>

definition considerKey :: "string list \<Rightarrow> bestMatch \<Rightarrow> string \<Rightarrow> bestMatch" where
  "considerKey stateWords best k =
     (let keyWords = normalizeAndTokenize k in
      if length keyWords = 0 then best
      else let sc = jaccard stateWords keyWords
           in if sc > score best then \<lparr>key = k, score = sc\<rparr> else best)"

definition bestMatchLoop :: "catalog \<Rightarrow> string list \<Rightarrow> bestMatch" where
  "bestMatchLoop cm stateWords =
     foldl (considerKey stateWords) \<lparr>key = [], score = 0\<rparr> (keys cm)"

definition SIMILARITY_THRESHOLD :: rat where
  "SIMILARITY_THRESHOLD = 4 / 10"

definition getCMImageUrl2 :: "catalog \<Rightarrow> js_input \<Rightarrow> string option" where
  "getCMImageUrl2 cm state =
     (case state of
        Str s \<Rightarrow>
          if s = [] then None
          else
            let stateWords = normalizeAndTokenize s in
            if length stateWords = 0 then None
            else
              let best = bestMatchLoop cm stateWords;
                  img = (if score best \<ge> SIMILARITY_THRESHOLD
                         then lookup cm (key best) else None)
              in if truthy img then img else None
      | _ \<Rightarrow> None)"

text \<open>
  \<^verbatim>\<open>const imgUrl = getCMImageUrl(state) || getCMImageUrl2(state)\<close>, in the callback
  of the position request.
\<close>

definition imgUrl :: "catalog \<Rightarrow> js_input \<Rightarrow> string option" where
  "imgUrl cm state = js_or (getCMImageUrl cm state) (getCMImageUrl2 cm state)"

section \<open>The region matcher of the specification\<close>











section \<open>The capture flow\<close>

datatype AppStep = initial | selectIssue | capture | generating | result

definition issueTypes :: "string list" where
  "issueTypes =
     [''Pothole'', ''Waterlogging'', ''Garbage Dump'', ''Broken Streetlight'', ''Other'']"

text \<open>The coordinates are only stored, never computed with.\<close>

record LocationState =
  latitude :: rat
  longitude :: rat
  address :: string

type_synonym MediaStream = nat

text \<open>
  The state of the component \<^verbatim>\<open>PotholeCertificateApp\<close>: its \<^verbatim>\<open>useState\<close> cells and
  \<^verbatim>\<open>streamRef.current\<close>.
\<close>

record AppState =
  step :: AppStep
  location :: "LocationState option"
  error :: string
  capturedImage :: "string option"
  generatedCertificate :: "string option"
  loadingMessage :: string
  isSharing :: bool
  issueType :: "string option"
  cmImageUrl :: "string option"
  streamRef :: "MediaStream option"

definition initialState :: AppState where
  "initialState =
     \<lparr>step = initial, location = None, error = [], capturedImage = None,
      generatedCertificate = None, loadingMessage = [], isSharing = False,
      issueType = None, cmImageUrl = None, streamRef = None\<rparr>"

text \<open>Stopping the tracks of the stream leaves nothing to observe but the cleared reference.\<close>

definition stopCamera :: "AppState \<Rightarrow> AppState" where
  "stopCamera s = (case streamRef s of None \<Rightarrow> s | Some stream \<Rightarrow> s\<lparr>streamRef := None\<rparr>)"

text \<open>
  \<^verbatim>\<open>startCaptureSequence\<close> runs up to its \<^verbatim>\<open>await\<close> of the camera request; the second
  function is its continuation, on the outcome of that request: the stream, or the name of
  the error caught.
\<close>

definition startCaptureSequence :: "string \<Rightarrow> AppState \<Rightarrow> AppState" where
  "startCaptureSequence type s =
     s\<lparr>issueType := Some type, error := [], step := capture,
       loadingMessage := ''Requesting camera access...''\<rparr>"

datatype camera_outcome = Granted MediaStream | Rejected string

definition startCaptureSequence_camera :: "camera_outcome \<Rightarrow> AppState \<Rightarrow> AppState" where
  "startCaptureSequence_camera outcome s =
     (case outcome of
        Granted stream \<Rightarrow>
          s\<lparr>streamRef := Some stream, loadingMessage := ''Fetching your location...''\<rparr>
      | Rejected name \<Rightarrow>
          (let errorMessage =
                 (if name = ''NotAllowedError''
                  then ''Camera access was denied. Please grant permission in your browser settings.''
                  else ''Could not access camera. Please check permissions.'')
           in (stopCamera (s\<lparr>error := errorMessage\<rparr>))\<lparr>step := initial\<rparr>))"

text \<open>
  The success callback of the position request, up to its \<^verbatim>\<open>await\<close> of the reverse
  geocoding, and its continuation on the outcome: the fields \<^verbatim>\<open>address.state\<close> and
  \<^verbatim>\<open>display_name\<close> of the response, or a rejected request, after which the callback
  runs no further.
\<close>

definition position_success :: "AppState \<Rightarrow> AppState" where
  "position_success s = s\<lparr>loadingMessage := ''Pinpointing address...''\<rparr>"

datatype geocode_outcome = Geocoded js_input js_input | GeocodeRejected

definition position_geocoded :: "rat \<Rightarrow> rat \<Rightarrow> geocode_outcome \<Rightarrow> AppState \<Rightarrow> AppState" where
  "position_geocoded lat lon outcome s =
     (case outcome of
        Geocoded state display_name \<Rightarrow>
          s\<lparr>cmImageUrl := imgUrl CM_DATA state,
            location := Some \<lparr>latitude = lat, longitude = lon,
              address = (case display_name of
                           Str d \<Rightarrow> if d = [] then ''Address not found'' else d
                         | _ \<Rightarrow> ''Address not found'')\<rparr>,
            loadingMessage := []\<rparr>
      | GeocodeRejected \<Rightarrow> s)"

text \<open>The error callback of the position request, on \<^verbatim>\<open>err.code\<close>.\<close>

definition geolocationErrorMessage :: "nat \<Rightarrow> string" where
  "geolocationErrorMessage code =
     (if code = 1
      then ''Location access was denied. Please grant permission in your browser settings.''
      else if code = 2
      then ''Location information is unavailable. Please check your network connection or try again.''
      else if code = 3
      then ''Failed to get your location in time. Please check your network connection and try again.''
      else ''Unable to retrieve your location. Please enable location services in your OS and browser.'')"

definition position_error :: "nat \<Rightarrow> AppState \<Rightarrow> AppState" where
  "position_error code s =
     (stopCamera (s\<lparr>error := geolocationErrorMessage code\<rparr>))\<lparr>step := initial\<rparr>"

text \<open>
  \<^verbatim>\<open>handleCapture\<close>: the video element is mounted while the step is \<open>capture\<close>; the
  canvas gives a drawing context and then the frame as a data URL, or no context.
\<close>

definition videoRef :: "AppState \<Rightarrow> bool" where
  "videoRef s = (step s = capture)"

datatype canvas_outcome = Frame string | NoContext

definition handleCapture :: "canvas_outcome \<Rightarrow> AppState \<Rightarrow> AppState" where
  "handleCapture canvas s =
     (if videoRef s
      then (stopCamera (case canvas of
                          Frame imageDataUrl \<Rightarrow> s\<lparr>capturedImage := Some imageDataUrl\<rparr>
                        | NoContext \<Rightarrow> s))\<lparr>step := generating\<rparr>
      else s)"

text \<open>
  \<^verbatim>\<open>CertificateDOM\<close> renders nothing unless its three props are truthy; it is mounted
  while the step is \<open>generating\<close>, and \<^verbatim>\<open>certificateRef.current\<close> is what it rendered.
\<close>

record Certificate =
  cert_address :: string
  cert_image :: string
  cert_issueType :: string
  cert_cmImage :: "string option"

definition CertificateDOM ::
  "LocationState option \<Rightarrow> string option \<Rightarrow> string option \<Rightarrow> string option \<Rightarrow> Certificate option" where
  "CertificateDOM loc img ty cm =
     (case (loc, img, ty) of
        (Some l, Some i, Some t) \<Rightarrow>
          if i = [] \<or> t = [] then None
          else Some \<lparr>cert_address = address l, cert_image = i, cert_issueType = t,
                     cert_cmImage = (if truthy cm then cm else None)\<rparr>
      | _ \<Rightarrow> None)"

definition certificateRef :: "AppState \<Rightarrow> Certificate option" where
  "certificateRef s =
     (if step s = generating
      then CertificateDOM (location s) (capturedImage s) (issueType s) (cmImageUrl s)
      else None)"

text \<open>The condition of the effect that sets the timer for \<^verbatim>\<open>generateCertificate\<close>.\<close>

definition generating_effect :: "AppState \<Rightarrow> bool" where
  "generating_effect s =
     (step s = generating \<and> truthy (capturedImage s) \<and> location s \<noteq> None)"

text \<open>
  \<^verbatim>\<open>generateCertificate\<close>, on what the rasterizer does: the library is not loaded, it
  gives the image as a data URL, or it fails.
\<close>

datatype raster_outcome = LibraryMissing | Png string | PngFailed

definition generateCertificate :: "raster_outcome \<Rightarrow> AppState \<Rightarrow> AppState" where
  "generateCertificate outcome s =
     (case certificateRef s of
        None \<Rightarrow>
          s\<lparr>error := ''Failed to create certificate. Certificate template not found.'',
            step := initial\<rparr>
      | Some template \<Rightarrow>
          (case outcome of
             LibraryMissing \<Rightarrow>
               s\<lparr>error := ''Image generation library not loaded yet. Please try again in a moment.'',
                 step := initial\<rparr>
           | Png dataUrl \<Rightarrow>
               s\<lparr>generatedCertificate := Some dataUrl, loadingMessage := [], step := result\<rparr>
           | PngFailed \<Rightarrow>
               s\<lparr>loadingMessage := ''Generating high-resolution image...'',
                 error := ''An error occurred while generating the certificate image. This can happen with certain browsers or network conditions.'',
                 step := initial\<rparr>))"

definition handleReset :: "AppState \<Rightarrow> AppState" where
  "handleReset s =
     (stopCamera (s\<lparr>step := initial, location := None, error := [], capturedImage := None,
                    generatedCertificate := None\<rparr>))\<lparr>issueType := None\<rparr>"

text \<open>
  \<^verbatim>\<open>handleShare\<close> and the timer that ends it; \<^verbatim>\<open>handleDownload\<close> changes no state.
\<close>

definition handleShare :: "AppState \<Rightarrow> AppState" where
  "handleShare s =
     (if location s = None \<or> \<not> truthy (generatedCertificate s) \<or> isSharing s
         \<or> \<not> truthy (issueType s)
      then s else s\<lparr>isSharing := True\<rparr>)"

definition handleShare_done :: "AppState \<Rightarrow> AppState" where
  "handleShare_done s = s\<lparr>isSharing := False\<rparr>"

subsection \<open>Events\<close>

text \<open>
  What can happen to the component: a click on a button it renders, or the browser
  settling a request or a timer. A button takes a click in the states that render it
  enabled. The completion of a request is allowed in every state, which is more than the
  browser does: what holds of every state reachable here holds of every state the
  application reaches.
\<close>

datatype event =
    ReportClicked
  | IssueChosen string
  | CameraSettled camera_outcome
  | PositionFound
  | PositionGeocoded rat rat geocode_outcome
  | PositionFailed nat
  | CaptureClicked canvas_outcome
  | RenderTimer raster_outcome
  | ResetClicked
  | ShareClicked
  | ShareTimer

fun enabled :: "event \<Rightarrow> AppState \<Rightarrow> bool" where
  "enabled ReportClicked s = (step s = initial)"
| "enabled (IssueChosen type) s = (step s = selectIssue \<and> type \<in> set issueTypes)"
| "enabled (CaptureClicked canvas) s =
     (step s = capture \<and> location s \<noteq> None \<and> loadingMessage s = [])"
| "enabled (RenderTimer outcome) s = generating_effect s"
| "enabled ResetClicked s = (step s = result \<and> truthy (generatedCertificate s))"
| "enabled ShareClicked s =
     (step s = result \<and> truthy (generatedCertificate s) \<and> \<not> isSharing s)"
| "enabled e s = True"

fun fire :: "event \<Rightarrow> AppState \<Rightarrow> AppState" where
  "fire ReportClicked s = s\<lparr>step := selectIssue\<rparr>"
| "fire (IssueChosen type) s = startCaptureSequence type s"
| "fire (CameraSettled outcome) s = startCaptureSequence_camera outcome s"
| "fire PositionFound s = position_success s"
| "fire (PositionGeocoded lat lon outcome) s = position_geocoded lat lon outcome s"
| "fire (PositionFailed code) s = position_error code s"
| "fire (CaptureClicked canvas) s = handleCapture canvas s"
| "fire (RenderTimer outcome) s = generateCertificate outcome s"
| "fire ResetClicked s = handleReset s"
| "fire ShareClicked s = handleShare s"
| "fire ShareTimer s = handleShare_done s"

inductive reachable :: "AppState \<Rightarrow> bool" where
  reachable_init: "reachable initialState"
| reachable_fire: "reachable s \<Longrightarrow> enabled e s \<Longrightarrow> reachable (fire e s)"

text \<open>Running a list of events from a state; \<open>None\<close> when one of them is not enabled.\<close>

fun run :: "event list \<Rightarrow> AppState \<Rightarrow> AppState option" where
  "run [] s = Some s"
| "run (e # es) s = (if enabled e s then run es (fire e s) else None)"

subsection \<open>A session\<close>

text \<open>
  The events of one session up to the resolved location, and the states they lead to: the
  camera granted, the position found and geocoded to an address in Punjab; then the frame
  captured; then the certificate rendered.
\<close>

definition sessionEvents :: "event list" where
  "sessionEvents =
     [ReportClicked, IssueChosen ''Pothole'', CameraSettled (Granted 1), PositionFound,
      PositionGeocoded 30 76 (Geocoded (Str ''Punjab'') (Str ''123 Main St''))]"

definition locatedState :: AppState where
  "locatedState = fold fire sessionEvents initialState"

definition capturedState :: AppState where
  "capturedState = handleCapture (Frame ''data:image/jpeg;base64,AAAA'') locatedState"

definition resultState :: AppState where
  "resultState = generateCertificate (Png ''data:image/png;base64,BBBB'') capturedState"

text \<open>The state of that session while the reverse geocoding is awaited.\<close>

definition positionedState :: AppState where
  "positionedState = fold fire (butlast sessionEvents) initialState"

text \<open>The report is complete: the fields a certificate is rendered from, and the certificate.\<close>

definition complete :: "AppState \<Rightarrow> bool" where
  "complete s =
     (location s \<noteq> None \<and> capturedImage s \<noteq> None \<and> issueType s \<noteq> None \<and>
      generatedCertificate s \<noteq> None)"

section \<open>The character classes, bit by bit\<close>

text \<open>
  The three functions on code units, as equations on the bits of the code unit (the least
  significant first); these are the equations that concrete strings are evaluated with.
\<close>

lemma isLowerAZ_Char [code]:
  "isLowerAZ (Char b0 b1 b2 b3 b4 b5 b6 b7) =
     (\<not> b7 \<and> b6 \<and> b5 \<and> (b0 \<or> b1 \<or> b2 \<or> b3 \<or> b4) \<and> \<not> (b4 \<and> b3 \<and> (b2 \<or> (b1 \<and> b0))))"
  by (cases b0; cases b1; cases b2; cases b3; cases b4; cases b5; cases b6; cases b7;
      simp add: isLowerAZ_def code_unit_def)

lemma isWhiteSpace_Char [code]:
  "isWhiteSpace (Char b0 b1 b2 b3 b4 b5 b6 b7) =
     (\<not> b6 \<and> \<not> b4 \<and>
      ((\<not> b7 \<and> \<not> b5 \<and> b3 \<and> ((\<not> b2 \<and> (b1 \<or> b0)) \<or> (b2 \<and> \<not> b1))) \<or>
       (b5 \<and> \<not> b3 \<and> \<not> b2 \<and> \<not> b1 \<and> \<not> b0)))"
  by (cases b0; cases b1; cases b2; cases b3; cases b4; cases b5; cases b6; cases b7;
      simp add: isWhiteSpace_def code_unit_def)

lemma toLowerCaseChar_Char [code]:
  "toLowerCaseChar (Char b0 b1 b2 b3 b4 b5 b6 b7) =
     (if b6 \<and> \<not> b5 \<and>
         ((\<not> b7 \<and> (b0 \<or> b1 \<or> b2 \<or> b3 \<or> b4) \<and> \<not> (b4 \<and> b3 \<and> (b2 \<or> (b1 \<and> b0)))) \<or>
          (b7 \<and> \<not> (b4 \<and> b2 \<and> b1 \<and> b0)))
      then Char b0 b1 b2 b3 b4 True b6 b7 else Char b0 b1 b2 b3 b4 b5 b6 b7)"
  by (cases b0; cases b1; cases b2; cases b3; cases b4; cases b5; cases b6; cases b7;
      simp add: toLowerCaseChar_def code_unit_def char_of_def bit_0)

section \<open>Properties of the region matchers\<close>

subsection \<open>Empty and absent input\<close>

text \<open>
  C8. For the inputs \<^verbatim>\<open>null\<close>, \<^verbatim>\<open>undefined\<close> and the empty string, each of the
  two matchers, and their combination, returns \<^verbatim>\<open>null\<close>, whatever the catalog is: the
  catalog is not consulted.
\<close>

theorem empty_input_no_match:
  "getCMImageUrl cm Null = None \<and> getCMImageUrl cm Undefined = None \<and>
   getCMImageUrl cm (Str []) = None \<and>
   getCMImageUrl2 cm Null = None \<and> getCMImageUrl2 cm Undefined = None \<and>
   getCMImageUrl2 cm (Str []) = None \<and>
   imgUrl cm Null = None \<and> imgUrl cm Undefined = None \<and> imgUrl cm (Str []) = None"
  by (simp add: getCMImageUrl_def getCMImageUrl2_def imgUrl_def js_or_def truthy_def)

subsection \<open>What the matchers can return\<close>

lemma key_and_lookup_Some:
  "key_and_lookup cm k = Some url \<Longrightarrow> url \<noteq> [] \<Longrightarrow> url \<in> snd ` set cm"
  by (auto simp: key_and_lookup_def lookup_def split: option.splits if_splits
      dest!: map_of_SomeD intro: rev_image_eqI)

lemma getCMImageUrl_result:
  "getCMImageUrl cm state = Some url \<Longrightarrow> url \<noteq> [] \<and> url \<in> snd ` set cm"
  unfolding getCMImageUrl_def Let_def
  by (auto simp: truthy_def split: js_input.splits if_splits option.splits
      dest: key_and_lookup_Some)

lemma getCMImageUrl2_result:
  "getCMImageUrl2 cm state = Some url \<Longrightarrow> url \<noteq> [] \<and> url \<in> snd ` set cm"
  unfolding getCMImageUrl2_def Let_def
  by (auto simp: truthy_def lookup_def split: js_input.splits if_splits option.splits
      dest!: map_of_SomeD intro: rev_image_eqI)

lemma manipur_no_image: "imgUrl CM_DATA (Str ''Manipur'') = None"
  by code_simp

lemma manipur_entry: "(''Manipur'', []) \<in> set CM_DATA"
  by (simp add: CM_DATA_def)

text \<open>
  C10. The combined matcher returns \<^verbatim>\<open>null\<close> or a non-empty URL that is a value of the
  catalog, never the empty string; for the input \<^verbatim>\<open>"Manipur"\<close>, whose catalog value is
  the empty string, it returns \<^verbatim>\<open>null\<close>, as it does when nothing matches.
\<close>

theorem imgUrl_null_or_catalog_url:
  "(case imgUrl cm state of None \<Rightarrow> True | Some url \<Rightarrow> url \<noteq> [] \<and> url \<in> snd ` set cm) \<and>
   (''Manipur'', []) \<in> set CM_DATA \<and> imgUrl CM_DATA (Str ''Manipur'') = None"
proof -
  have "url \<noteq> [] \<and> url \<in> snd ` set cm" if "imgUrl cm state = Some url" for url
    using that getCMImageUrl_result [of cm state url] getCMImageUrl2_result [of cm state url]
    by (auto simp: imgUrl_def js_or_def split: if_splits)
  then show ?thesis
    using manipur_no_image manipur_entry by (auto split: option.splits)
qed

subsection \<open>The token-overlap score and the best match\<close>

lemma set_newSet: "set (newSet xs) = set xs"
  by (simp add: newSet_def)

lemma distinct_newSet: "distinct (newSet xs)"
  by (simp add: newSet_def)

lemma length_newSet: "length (newSet xs) = card (set xs)"
  using distinct_card [OF distinct_newSet, of xs] by (simp add: set_newSet)

lemma jaccard_card:
  "jaccard xs ys = of_nat (card (set xs \<inter> set ys)) / of_nat (card (set xs \<union> set ys))"
proof -
  have "set (filter (\<lambda>word. word \<in> set ys) xs) = set xs \<inter> set ys"
    by auto
  then show ?thesis
    by (simp add: jaccard_def Let_def length_newSet)
qed



text \<open>
  C9, as amended. The score depends on the two word sets only, and is symmetric: two
  lists of words with the same set of words (the words of \<^verbatim>\<open>"jammu kashmir"\<close> and of
  \<^verbatim>\<open>"kashmir jammu"\<close>, say) score the same against every list of key words, and the
  score of the state words against the key words is that of the key words against the
  state words.
\<close>

theorem jaccard_symmetric:
  "(set stateWords = set stateWords' \<longrightarrow>
      jaccard stateWords keyWords = jaccard stateWords' keyWords) \<and>
   jaccard stateWords keyWords = jaccard keyWords stateWords"
  by (simp add: jaccard_card Int_commute Un_commute)

theorem jaccard_symmetric_witness:
  "set (normalizeAndTokenize ''kashmir jammu'') = set (normalizeAndTokenize ''jammu kashmir'') \<and>
   jaccard (normalizeAndTokenize ''kashmir jammu'') (normalizeAndTokenize ''Jammu & Kashmir'') = 2 / 3 \<and>
   jaccard (normalizeAndTokenize ''jammu kashmir'') (normalizeAndTokenize ''Jammu & Kashmir'') = 2 / 3 \<and>
   jaccard (normalizeAndTokenize ''Jammu & Kashmir'') (normalizeAndTokenize ''kashmir jammu'') = 2 / 3"
proof -
  have h: "set (normalizeAndTokenize ''kashmir jammu'') = set (normalizeAndTokenize ''jammu kashmir'')"
    by code_simp
  have v: "jaccard (normalizeAndTokenize ''kashmir jammu'') (normalizeAndTokenize ''Jammu & Kashmir'') = 2 / 3"
    by code_simp
  have a: "jaccard (normalizeAndTokenize ''jammu kashmir'') (normalizeAndTokenize ''Jammu & Kashmir'')
      = jaccard (normalizeAndTokenize ''kashmir jammu'') (normalizeAndTokenize ''Jammu & Kashmir'')"
    using jaccard_symmetric [of "normalizeAndTokenize ''kashmir jammu''"
        "normalizeAndTokenize ''jammu kashmir''" "normalizeAndTokenize ''Jammu & Kashmir''"] h
    by simp
  have b: "jaccard (normalizeAndTokenize ''Jammu & Kashmir'') (normalizeAndTokenize ''kashmir jammu'')
      = jaccard (normalizeAndTokenize ''kashmir jammu'') (normalizeAndTokenize ''Jammu & Kashmir'')"
    using jaccard_symmetric [of "normalizeAndTokenize ''Jammu & Kashmir''"
        "normalizeAndTokenize ''Jammu & Kashmir''" "normalizeAndTokenize ''kashmir jammu''"]
    by simp
  show ?thesis using h v a b by simp
qed

text \<open>
  The claim as first stated names \<^verbatim>\<open>"Jammu & Kashmir"\<close> and \<^verbatim>\<open>"kashmir jammu"\<close> as two
  inputs with equal word sets. They are not: the ampersand becomes the word \<open>and\<close>, so
  the first has three words and the second two, and against the key
  \<^verbatim>\<open>"Jammu & Kashmir"\<close> the first scores 1 and the second 2/3.
\<close>

theorem jaccard_example_pair_counterexample:
  "set (normalizeAndTokenize ''Jammu & Kashmir'') \<noteq> set (normalizeAndTokenize ''kashmir jammu'') \<and>
   normalizeAndTokenize ''Jammu & Kashmir'' = [''jammu'', ''and'', ''kashmir''] \<and>
   normalizeAndTokenize ''kashmir jammu'' = [''kashmir'', ''jammu''] \<and>
   jaccard (normalizeAndTokenize ''Jammu & Kashmir'') (normalizeAndTokenize ''Jammu & Kashmir'') = 1 \<and>
   jaccard (normalizeAndTokenize ''kashmir jammu'') (normalizeAndTokenize ''Jammu & Kashmir'') = 2 / 3 \<and>
   jaccard (normalizeAndTokenize ''Jammu & Kashmir'') (normalizeAndTokenize ''Jammu & Kashmir'')
     \<noteq> jaccard (normalizeAndTokenize ''kashmir jammu'') (normalizeAndTokenize ''Jammu & Kashmir'')"
  by code_simp









subsection \<open>Normalization and the exact pass\<close>

lemma removeNonAlpha_append:
  "removeNonAlpha (xs @ ys) = removeNonAlpha xs @ removeNonAlpha ys"
  by (simp add: removeNonAlpha_def)

lemma removeNonAlpha_whiteSpace:
  "\<forall>c\<in>set w. isWhiteSpace c \<Longrightarrow> removeNonAlpha w = w"
  by (simp add: removeNonAlpha_def)

lemma trimStart_whiteSpace_append:
  "\<forall>c\<in>set w. isWhiteSpace c \<Longrightarrow> trimStart (w @ y) = trimStart y"
  by (simp add: trimStart_def dropWhile_append2)

lemma trimStart_split:
  "\<exists>w. (\<forall>c\<in>set w. isWhiteSpace c) \<and> x = w @ trimStart x"
proof -
  have "x = takeWhile isWhiteSpace x @ trimStart x"
    by (simp add: trimStart_def)
  moreover have "\<forall>c\<in>set (takeWhile isWhiteSpace x). isWhiteSpace c"
    by (auto dest: set_takeWhileD)
  ultimately show ?thesis by blast
qed

lemma trim_split:
  "\<exists>w. (\<forall>c\<in>set w. isWhiteSpace c) \<and> trimStart x = trim x @ w"
proof -
  obtain w where w: "\<forall>c\<in>set w. isWhiteSpace c" "rev (trimStart x) = w @ trimStart (rev (trimStart x))"
    using trimStart_split [of "rev (trimStart x)"] by blast
  from w(2) have "trimStart x = rev (trimStart (rev (trimStart x))) @ rev w"
    by (metis rev_append rev_rev_ident)
  then have "trimStart x = trim x @ rev w"
    by (simp add: trim_def)
  moreover have "\<forall>c\<in>set (rev w). isWhiteSpace c"
    using w(1) by simp
  ultimately show ?thesis by blast
qed

lemma trim_append_whiteSpace:
  assumes "\<forall>c\<in>set w. isWhiteSpace c"
  shows "trim (y @ w) = trim y"
proof (cases "\<forall>c\<in>set y. isWhiteSpace c")
  case True
  have 1: "trimStart (y @ w) = []"
    using True assms by (simp add: trimStart_def)
  have 2: "trimStart y = []"
    using True by (simp add: trimStart_def)
  show ?thesis
    unfolding trim_def 1 2 by simp
next
  case False
  then have "trimStart (y @ w) = trimStart y @ w"
    by (auto simp: trimStart_def dropWhile_append)
  moreover have "trimStart (rev w @ rev (trimStart y)) = trimStart (rev (trimStart y))"
    using assms by (simp add: trimStart_whiteSpace_append)
  ultimately show ?thesis by (simp add: trim_def)
qed

lemma trim_whiteSpace_append:
  assumes "\<forall>c\<in>set w. isWhiteSpace c"
  shows "trim (w @ y) = trim y"
  using assms by (simp add: trim_def trimStart_whiteSpace_append)

lemma trim_removeNonAlpha:
  "trim (removeNonAlpha x) = trim (removeNonAlpha (trim x))"
proof -
  obtain a where a: "\<forall>c\<in>set a. isWhiteSpace c" "x = a @ trimStart x"
    using trimStart_split by blast
  obtain b where b: "\<forall>c\<in>set b. isWhiteSpace c" "trimStart x = trim x @ b"
    using trim_split by blast
  have "removeNonAlpha x = a @ removeNonAlpha (trim x) @ b"
  proof -
    have "removeNonAlpha x = removeNonAlpha (a @ trim x @ b)"
      using a(2) b(2) by simp
    then show ?thesis
      using a(1) b(1) by (simp add: removeNonAlpha_append removeNonAlpha_whiteSpace)
  qed
  then have "trim (removeNonAlpha x) = trim (a @ removeNonAlpha (trim x) @ b)"
    by simp
  also have "\<dots> = trim (removeNonAlpha (trim x) @ b)"
    using a(1) by (rule trim_whiteSpace_append)
  also have "\<dots> = trim (removeNonAlpha (trim x))"
    using b(1) by (rule trim_append_whiteSpace)
  finally show ?thesis .
qed

lemma normalizeAndTokenize_normalized:
  "normalizeAndTokenize s =
     newSet (filter (\<lambda>word. length word > 0)
       (split_ws (trim (removeNonAlpha (normalized s)))))"
  using trim_removeNonAlpha [of "replaceAmp (toLowerCase s)"]
  by (simp add: normalizeAndTokenize_def normalized_def)

lemma matchers_normalized:
  assumes "normalized s = normalized s'" "s \<noteq> []" "s' \<noteq> []"
  shows "getCMImageUrl cm (Str s) = getCMImageUrl cm (Str s')"
    and "getCMImageUrl2 cm (Str s) = getCMImageUrl2 cm (Str s')"
    and "imgUrl cm (Str s) = imgUrl cm (Str s')"
proof -
  show 1: "getCMImageUrl cm (Str s) = getCMImageUrl cm (Str s')"
    using assms by (simp add: getCMImageUrl_def)
  have "normalizeAndTokenize s = normalizeAndTokenize s'"
    using assms(1) by (simp add: normalizeAndTokenize_normalized)
  then show 2: "getCMImageUrl2 cm (Str s) = getCMImageUrl2 cm (Str s')"
    using assms by (simp add: getCMImageUrl2_def)
  show "imgUrl cm (Str s) = imgUrl cm (Str s')"
    using 1 2 by (simp add: imgUrl_def)
qed

lemma find_unique:
  "k \<in> set xs \<Longrightarrow> P k \<Longrightarrow> (\<forall>x\<in>set xs. P x \<longrightarrow> x = k) \<Longrightarrow> find P xs = Some k"
proof (induction xs)
  case Nil
  then show ?case by simp
next
  case (Cons a xs)
  show ?case
  proof (cases "P a")
    case True
    have "a \<in> set (a # xs)"
      by simp
    with Cons.prems(3) True have "a = k"
      by blast
    then show ?thesis
      using True by (simp only: find.simps if_True)
  next
    case False
    have "k \<noteq> a"
      using False Cons.prems(2) by blast
    with Cons.prems(1) have "k \<in> set xs"
      by (metis set_ConsD)
    moreover have "\<forall>x\<in>set xs. P x \<longrightarrow> x = k"
      using Cons.prems(3) by (meson list.set_intros(2))
    ultimately have "find P xs = Some k"
      using Cons.IH Cons.prems(2) by blast
    then show ?thesis
      using False by (simp only: find.simps if_False)
  qed
qed

lemma exactMatchKey_found:
  assumes "distinct (map normalized (keys cm))" "(k, v) \<in> set cm" "normalized s = normalized k"
  shows "find (\<lambda>k'. normalized k' = normalized s) (keys cm) = Some k"
proof (rule find_unique)
  show "k \<in> set (keys cm)"
    using assms(2) by (force simp: keys_def)
  show "normalized k = normalized s"
    using assms(3) by simp
  have "inj_on normalized (set (keys cm))"
    using assms(1) by (simp add: distinct_map)
  then show "\<forall>x\<in>set (keys cm). normalized x = normalized s \<longrightarrow> x = k"
    using assms(3) \<open>k \<in> set (keys cm)\<close> by (metis inj_onD)
qed

lemma lookup_entry:
  assumes "distinct (keys cm)" "(k, v) \<in> set cm"
  shows "lookup cm k = Some v"
  using assms unfolding lookup_def keys_def by (rule map_of_is_SomeI)

lemma distinct_normalized_keys:
  "distinct (map normalized (keys cm)) \<Longrightarrow> distinct (keys cm)"
  using distinct_map [of normalized "keys cm"] by blast

lemma exact_match_usable:
  assumes "distinct (map normalized (keys cm))" "(k, v) \<in> set cm" "normalized s = normalized k"
    and "s \<noteq> []" "k \<noteq> []" "v \<noteq> []"
  shows "getCMImageUrl cm (Str s) = Some v" and "imgUrl cm (Str s) = Some v"
proof -
  show "getCMImageUrl cm (Str s) = Some v"
    using exactMatchKey_found [OF assms(1-3)] lookup_entry [OF distinct_normalized_keys [OF assms(1)] assms(2)] assms(4-6)
    by (simp add: getCMImageUrl_def key_and_lookup_def truthy_def)
  then show "imgUrl cm (Str s) = Some v"
    using assms(6) by (simp add: imgUrl_def js_or_def truthy_def)
qed

lemma CM_DATA_normalized_distinct: "distinct (map normalized (keys CM_DATA))"
  by code_simp

lemma CM_DATA_keys_nonempty: "(k, v) \<in> set CM_DATA \<Longrightarrow> k \<noteq> []"
proof -
  have "[] \<notin> set (keys CM_DATA)"
    by code_simp
  moreover assume "(k, v) \<in> set CM_DATA"
  then have "k \<in> set (keys CM_DATA)"
    by (force simp: keys_def)
  ultimately show ?thesis by auto
qed

lemma CM_DATA_empty_imagery: "(k, []) \<in> set CM_DATA \<Longrightarrow> k = ''Manipur''"
proof -
  have "filter (\<lambda>e. snd e = []) CM_DATA = [(''Manipur'', [])]"
    by code_simp
  moreover assume "(k, []) \<in> set CM_DATA"
  then have "(k, []) \<in> set (filter (\<lambda>e. snd e = []) CM_DATA)"
    by simp
  ultimately show ?thesis by simp
qed

lemma manipur_exact_no_image: "getCMImageUrl CM_DATA (Str ''Manipur'') = None"
  by code_simp

text \<open>
  C1, as amended. For every non-empty input whose normalization equals the normalized key
  of a catalog entry, the exact/substring matcher and the combined matcher return that
  entry's imagery when it is not the empty string, and \<^verbatim>\<open>null\<close> when it is (the
  entry \<^verbatim>\<open>Manipur\<close>).
\<close>

theorem exact_match_returns_usable_imagery:
  assumes "s \<noteq> []" and "(k, v) \<in> set CM_DATA" and "normalized s = normalized k"
  shows "getCMImageUrl CM_DATA (Str s) = (if v = [] then None else Some v) \<and>
         imgUrl CM_DATA (Str s) = (if v = [] then None else Some v)"
proof (cases "v = []")
  case True
  then have "k = ''Manipur''"
    using assms(2) CM_DATA_empty_imagery by simp
  then have n: "normalized s = normalized ''Manipur''"
    using assms(3) by simp
  have m: "''Manipur'' \<noteq> []"
    by simp
  have "getCMImageUrl CM_DATA (Str s) = None"
    using matchers_normalized(1) [OF n assms(1) m] manipur_exact_no_image by simp
  moreover have "imgUrl CM_DATA (Str s) = None"
    using matchers_normalized(3) [OF n assms(1) m] manipur_no_image by simp
  ultimately show ?thesis
    using True by simp
next
  case False
  have "getCMImageUrl CM_DATA (Str s) = Some v" and "imgUrl CM_DATA (Str s) = Some v"
    using exact_match_usable [OF CM_DATA_normalized_distinct assms(2,3,1)
        CM_DATA_keys_nonempty [OF assms(2)] False]
    by blast+
  then show ?thesis
    using False by simp
qed

theorem exact_match_returns_usable_imagery_witness:
  "''  JAMMU & kashmir '' \<noteq> [] \<and>
   (''Jammu & Kashmir'',
    ''https://upload.wikimedia.org/wikipedia/commons/6/68/Omar_Abdullah%2C_Chief_Minister_of_Jammu_%26_Kashmir.jpg'')
     \<in> set CM_DATA \<and>
   normalized ''  JAMMU & kashmir '' = normalized ''Jammu & Kashmir'' \<and>
   getCMImageUrl CM_DATA (Str ''  JAMMU & kashmir '') =
     Some ''https://upload.wikimedia.org/wikipedia/commons/6/68/Omar_Abdullah%2C_Chief_Minister_of_Jammu_%26_Kashmir.jpg'' \<and>
   imgUrl CM_DATA (Str ''  JAMMU & kashmir '') =
     Some ''https://upload.wikimedia.org/wikipedia/commons/6/68/Omar_Abdullah%2C_Chief_Minister_of_Jammu_%26_Kashmir.jpg'' \<and>
   (''Manipur'', []) \<in> set CM_DATA \<and>
   normalized ''MANIPUR '' = normalized ''Manipur'' \<and>
   getCMImageUrl CM_DATA (Str ''MANIPUR '') = None \<and>
   imgUrl CM_DATA (Str ''MANIPUR '') = None"
proof -
  have a: "''  JAMMU & kashmir '' \<noteq> []" "''MANIPUR '' \<noteq> []"
    by simp_all
  have b: "(''Jammu & Kashmir'',
    ''https://upload.wikimedia.org/wikipedia/commons/6/68/Omar_Abdullah%2C_Chief_Minister_of_Jammu_%26_Kashmir.jpg'')
     \<in> set CM_DATA"
    by (simp add: CM_DATA_def)
  have c: "normalized ''  JAMMU & kashmir '' = normalized ''Jammu & Kashmir''"
    by code_simp
  have d: "normalized ''MANIPUR '' = normalized ''Manipur''"
    by code_simp
  have e: "''https://upload.wikimedia.org/wikipedia/commons/6/68/Omar_Abdullah%2C_Chief_Minister_of_Jammu_%26_Kashmir.jpg'' \<noteq> []"
    by simp
  note j = exact_match_returns_usable_imagery [OF a(1) b c]
  note m = exact_match_returns_usable_imagery [OF a(2) manipur_entry d]
  from j e have j1: "getCMImageUrl CM_DATA (Str ''  JAMMU & kashmir '') =
     Some ''https://upload.wikimedia.org/wikipedia/commons/6/68/Omar_Abdullah%2C_Chief_Minister_of_Jammu_%26_Kashmir.jpg''"
    by (simp only: if_False)
  from j e have j2: "imgUrl CM_DATA (Str ''  JAMMU & kashmir '') =
     Some ''https://upload.wikimedia.org/wikipedia/commons/6/68/Omar_Abdullah%2C_Chief_Minister_of_Jammu_%26_Kashmir.jpg''"
    by (simp only: if_False)
  from m have m1: "getCMImageUrl CM_DATA (Str ''MANIPUR '') = None"
    by (simp only: if_True simp_thms)
  from m have m2: "imgUrl CM_DATA (Str ''MANIPUR '') = None"
    by (simp only: if_True simp_thms)
  show ?thesis
    by (intro conjI a b c d j1 j2 m1 m2 manipur_entry)
qed

text \<open>
  The claim as first stated fails at the input \<^verbatim>\<open>"Manipur"\<close>: the entry's imagery is
  the empty string, and the matchers return \<^verbatim>\<open>null\<close>, not the empty string.
\<close>

theorem exact_match_empty_imagery_counterexample:
  "''Manipur'' \<noteq> [] \<and> (''Manipur'', []) \<in> set CM_DATA \<and>
   normalized ''Manipur'' = normalized ''Manipur'' \<and>
   getCMImageUrl CM_DATA (Str ''Manipur'') = None \<and>
   getCMImageUrl CM_DATA (Str ''Manipur'') \<noteq> Some [] \<and>
   imgUrl CM_DATA (Str ''Manipur'') = None \<and>
   imgUrl CM_DATA (Str ''Manipur'') \<noteq> Some []"
  using manipur_entry manipur_exact_no_image manipur_no_image by simp

subsection \<open>The two matchers and the three-tier algorithm\<close>































section \<open>Properties of the capture flow\<close>

lemma stopCamera_streamRef: "streamRef (stopCamera s) = None"
  by (simp add: stopCamera_def split: option.splits)

lemma stopCamera_fields:
  "step (stopCamera s) = step s" "error (stopCamera s) = error s"
  "location (stopCamera s) = location s" "capturedImage (stopCamera s) = capturedImage s"
  "issueType (stopCamera s) = issueType s" "cmImageUrl (stopCamera s) = cmImageUrl s"
  "generatedCertificate (stopCamera s) = generatedCertificate s"
  "loadingMessage (stopCamera s) = loadingMessage s" "isSharing (stopCamera s) = isSharing s"
  by (simp_all add: stopCamera_def split: option.splits)

subsection \<open>Reachable states\<close>

lemma run_reachable: "reachable s \<Longrightarrow> run es s = Some s' \<Longrightarrow> reachable s'"
proof (induction es arbitrary: s)
  case Nil
  then show ?case by simp
next
  case (Cons e es)
  from Cons.prems(2) have en: "enabled e s" and r: "run es (fire e s) = Some s'"
    by (simp_all split: if_splits)
  have "reachable (fire e s)"
    using Cons.prems(1) en by (rule reachable_fire)
  then show ?case
    using r by (rule Cons.IH)
qed

lemma locatedState_value:
  "locatedState =
     \<lparr>step = capture,
      location = Some \<lparr>latitude = 30, longitude = 76, address = ''123 Main St''\<rparr>,
      error = [], capturedImage = None, generatedCertificate = None, loadingMessage = [],
      isSharing = False, issueType = Some ''Pothole'',
      cmImageUrl = Some ''https://upload.wikimedia.org/wikipedia/commons/f/f8/Bhagwant_Mann.png'',
      streamRef = Some 1\<rparr>"
  by code_simp

lemma locatedState_run: "run sessionEvents initialState = Some locatedState"
  by code_simp

lemma locatedState_reachable: "reachable locatedState"
  using reachable_init locatedState_run by (rule run_reachable)

lemma capturedState_value:
  "capturedState =
     \<lparr>step = generating,
      location = Some \<lparr>latitude = 30, longitude = 76, address = ''123 Main St''\<rparr>,
      error = [], capturedImage = Some ''data:image/jpeg;base64,AAAA'',
      generatedCertificate = None, loadingMessage = [],
      isSharing = False, issueType = Some ''Pothole'',
      cmImageUrl = Some ''https://upload.wikimedia.org/wikipedia/commons/f/f8/Bhagwant_Mann.png'',
      streamRef = None\<rparr>"
  unfolding capturedState_def locatedState_value
  by (simp add: handleCapture_def videoRef_def stopCamera_def)

lemma resultState_value:
  "resultState =
     \<lparr>step = result,
      location = Some \<lparr>latitude = 30, longitude = 76, address = ''123 Main St''\<rparr>,
      error = [], capturedImage = Some ''data:image/jpeg;base64,AAAA'',
      generatedCertificate = Some ''data:image/png;base64,BBBB'', loadingMessage = [],
      isSharing = False, issueType = Some ''Pothole'',
      cmImageUrl = Some ''https://upload.wikimedia.org/wikipedia/commons/f/f8/Bhagwant_Mann.png'',
      streamRef = None\<rparr>"
  unfolding resultState_def capturedState_value
  by (simp add: generateCertificate_def certificateRef_def CertificateDOM_def truthy_def)

lemma capturedState_reachable: "reachable capturedState"
proof -
  have "enabled (CaptureClicked (Frame ''data:image/jpeg;base64,AAAA'')) locatedState"
    by (simp add: locatedState_value)
  with locatedState_reachable
  have "reachable (fire (CaptureClicked (Frame ''data:image/jpeg;base64,AAAA'')) locatedState)"
    by (rule reachable_fire)
  then show ?thesis
    by (simp add: capturedState_def)
qed

lemma resultState_reachable: "reachable resultState"
proof -
  have "enabled (RenderTimer (Png ''data:image/png;base64,BBBB'')) capturedState"
    by (simp add: capturedState_value generating_effect_def truthy_def)
  with capturedState_reachable
  have "reachable (fire (RenderTimer (Png ''data:image/png;base64,BBBB'')) capturedState)"
    by (rule reachable_fire)
  then show ?thesis
    by (simp add: resultState_def)
qed

lemma certificateRef_Some:
  "certificateRef s = Some template \<Longrightarrow>
   step s = generating \<and> location s \<noteq> None \<and> capturedImage s \<noteq> None \<and> issueType s \<noteq> None"
  by (auto simp: certificateRef_def CertificateDOM_def split: if_splits option.splits)

lemma generateCertificate_result:
  "step (generateCertificate outcome s) = result \<Longrightarrow>
   (\<exists>dataUrl. outcome = Png dataUrl) \<and> step s = generating \<and> location s \<noteq> None \<and>
   capturedImage s \<noteq> None \<and> issueType s \<noteq> None \<and>
   generatedCertificate (generateCertificate outcome s) \<noteq> None"
  by (auto simp: generateCertificate_def split: option.splits raster_outcome.splits
      dest: certificateRef_Some)

lemma generateCertificate_fields:
  "location (generateCertificate outcome s) = location s"
  "capturedImage (generateCertificate outcome s) = capturedImage s"
  "issueType (generateCertificate outcome s) = issueType s"
  by (simp_all add: generateCertificate_def split: option.splits raster_outcome.splits)

lemma generateCertificate_produces:
  "generatedCertificate (generateCertificate outcome s) \<noteq> generatedCertificate s \<Longrightarrow>
   step (generateCertificate outcome s) = result"
  by (auto simp: generateCertificate_def split: option.splits raster_outcome.splits)

lemma fire_enters_result:
  assumes "step (fire e s) = result" "step s \<noteq> result"
  shows "(\<exists>dataUrl. e = RenderTimer (Png dataUrl)) \<and> step s = generating \<and>
     location s \<noteq> None \<and> capturedImage s \<noteq> None \<and> issueType s \<noteq> None \<and>
     generatedCertificate (fire e s) \<noteq> None"
proof (cases e)
  case (RenderTimer outcome)
  then show ?thesis
    using assms(1) generateCertificate_result [of outcome s] by auto
next
  case (CameraSettled outcome)
  then show ?thesis
    using assms by (auto simp: startCaptureSequence_camera_def stopCamera_fields Let_def
        split: camera_outcome.splits)
next
  case (PositionGeocoded lat lon outcome)
  then show ?thesis
    using assms by (auto simp: position_geocoded_def split: geocode_outcome.splits)
next
  case (CaptureClicked canvas)
  then show ?thesis
    using assms by (auto simp: handleCapture_def stopCamera_fields split: if_splits)
qed (use assms in \<open>auto simp: startCaptureSequence_def position_success_def position_error_def
      handleReset_def handleShare_def handleShare_done_def stopCamera_fields split: if_splits\<close>)

lemma fire_produces:
  assumes "generatedCertificate (fire e s) \<noteq> None"
    and "generatedCertificate (fire e s) \<noteq> generatedCertificate s"
  shows "(\<exists>outcome. e = RenderTimer outcome) \<and> step (fire e s) = result"
proof (cases e)
  case (RenderTimer outcome)
  then show ?thesis
    using assms(2) generateCertificate_produces [of outcome s] by auto
next
  case (CameraSettled outcome)
  then show ?thesis
    using assms by (auto simp: startCaptureSequence_camera_def stopCamera_fields Let_def
        split: camera_outcome.splits)
next
  case (PositionGeocoded lat lon outcome)
  then show ?thesis
    using assms by (auto simp: position_geocoded_def split: geocode_outcome.splits)
next
  case (CaptureClicked canvas)
  then show ?thesis
    using assms by (auto simp: handleCapture_def stopCamera_fields
        split: if_splits canvas_outcome.splits)
qed (use assms in \<open>auto simp: startCaptureSequence_def position_success_def position_error_def
      handleReset_def handleShare_def handleShare_done_def stopCamera_fields split: if_splits\<close>)

lemma fire_keeps_result:
  assumes "step s = result" "complete s" "step (fire e s) = result"
  shows "complete (fire e s)"
proof (cases e)
  case (RenderTimer outcome)
  then show ?thesis
    using assms by (auto simp: generateCertificate_def certificateRef_def)
next
  case (CameraSettled outcome)
  then show ?thesis
    using assms by (auto simp: complete_def startCaptureSequence_camera_def stopCamera_fields
        Let_def split: camera_outcome.splits)
next
  case (PositionGeocoded lat lon outcome)
  then show ?thesis
    using assms by (auto simp: complete_def position_geocoded_def split: geocode_outcome.splits)
next
  case (CaptureClicked canvas)
  then show ?thesis
    using assms by (auto simp: complete_def handleCapture_def videoRef_def)
qed (use assms in \<open>auto simp: complete_def startCaptureSequence_def position_success_def
      position_error_def handleReset_def handleShare_def handleShare_done_def stopCamera_fields split: if_splits\<close>)

lemma reachable_result_complete: "reachable s \<Longrightarrow> step s = result \<Longrightarrow> complete s"
proof (induction rule: reachable.induct)
  case reachable_init
  then show ?case by (simp add: initialState_def)
next
  case (reachable_fire s e)
  show ?case
  proof (cases "step s = result")
    case True
    then show ?thesis
      using reachable_fire.IH reachable_fire.prems by (simp add: fire_keeps_result)
  next
    case False
    have "location (fire e s) = location s \<and> capturedImage (fire e s) = capturedImage s \<and>
        issueType (fire e s) = issueType s"
      using fire_enters_result [OF reachable_fire.prems False]
      by (auto simp: generateCertificate_fields)
    then show ?thesis
      using fire_enters_result [OF reachable_fire.prems False] by (simp add: complete_def)
  qed
qed

subsection \<open>The certificate is rendered from a complete report\<close>

text \<open>
  C4. Whatever the state and the event: the step becomes \<open>result\<close> only by the timer of
  the rendering with a rasterized image, from the step \<open>generating\<close>, with the location,
  the captured image and the issue type all non-null; a new certificate is set only so;
  and in every reachable state whose step is \<open>result\<close> the three fields and the
  certificate are non-null.
\<close>

theorem certificate_needs_complete_report:
  "(step (fire e s) = result \<and> step s \<noteq> result \<longrightarrow>
      (\<exists>dataUrl. e = RenderTimer (Png dataUrl)) \<and> step s = generating \<and>
      location s \<noteq> None \<and> capturedImage s \<noteq> None \<and> issueType s \<noteq> None) \<and>
   (generatedCertificate (fire e s) \<noteq> None \<and>
    generatedCertificate (fire e s) \<noteq> generatedCertificate s \<longrightarrow>
      (\<exists>dataUrl. e = RenderTimer (Png dataUrl)) \<and> step s = generating \<and>
      location s \<noteq> None \<and> capturedImage s \<noteq> None \<and> issueType s \<noteq> None) \<and>
   (reachable s \<and> step s = result \<longrightarrow> complete s)"
proof -
  have "(\<exists>dataUrl. e = RenderTimer (Png dataUrl)) \<and> step s = generating \<and>
      location s \<noteq> None \<and> capturedImage s \<noteq> None \<and> issueType s \<noteq> None"
    if a: "generatedCertificate (fire e s) \<noteq> None"
      and b: "generatedCertificate (fire e s) \<noteq> generatedCertificate s"
  proof -
    from fire_produces [OF a b] obtain outcome
      where e: "e = RenderTimer outcome" and r: "step (fire e s) = result"
      by blast
    from r e have "step (generateCertificate outcome s) = result"
      by simp
    from generateCertificate_result [OF this] e show ?thesis
      by blast
  qed
  then show ?thesis
    using fire_enters_result [of e s] reachable_result_complete [of s] by blast
qed

theorem certificate_needs_complete_report_witness:
  "step (fire (RenderTimer (Png ''data:image/png;base64,BBBB'')) capturedState) = result \<and>
   step capturedState \<noteq> result \<and> step capturedState = generating \<and>
   location capturedState \<noteq> None \<and> capturedImage capturedState \<noteq> None \<and>
   issueType capturedState \<noteq> None \<and>
   reachable resultState \<and> step resultState = result \<and> complete resultState"
proof -
  have a: "step (fire (RenderTimer (Png ''data:image/png;base64,BBBB'')) capturedState) = result"
    using resultState_value by (simp add: resultState_def)
  have b: "step capturedState \<noteq> result"
    by (simp add: capturedState_value)
  have c: "step resultState = result"
    by (simp add: resultState_value)
  show ?thesis
    using a b c resultState_reachable
      certificate_needs_complete_report
        [of "RenderTimer (Png ''data:image/png;base64,BBBB'')" capturedState]
      certificate_needs_complete_report [of ReportClicked resultState]
    by blast
qed

subsection \<open>Failures that no handler takes\<close>

lemma positionedState_value:
  "positionedState =
     \<lparr>step = capture, location = None, error = [], capturedImage = None,
      generatedCertificate = None, loadingMessage = ''Pinpointing address...'',
      isSharing = False, issueType = Some ''Pothole'', cmImageUrl = None,
      streamRef = Some 1\<rparr>"
  by code_simp

lemma positionedState_reachable: "reachable positionedState"
proof -
  have "run (butlast sessionEvents) initialState = Some positionedState"
    by code_simp
  with reachable_init show ?thesis
    by (rule run_reachable)
qed

text \<open>
  C5, where the code departs from it. In the reachable state with the camera live and the
  location resolved, a click on the capture button whose canvas gives no drawing context
  leaves the step \<open>generating\<close> with no error message and no captured image, and the
  effect that starts the rendering does not fire. In the reachable state that awaits the
  reverse geocoding, a rejected request changes nothing: the step stays \<open>capture\<close>, no
  error message is set, the camera stream stays held, and the capture button stays
  disabled.
\<close>

theorem capture_failures_unhandled:
  "reachable locatedState \<and> enabled (CaptureClicked NoContext) locatedState \<and>
   step (handleCapture NoContext locatedState) = generating \<and>
   error (handleCapture NoContext locatedState) = [] \<and>
   capturedImage (handleCapture NoContext locatedState) = None \<and>
   \<not> generating_effect (handleCapture NoContext locatedState) \<and>
   reachable positionedState \<and>
   position_geocoded 30 76 GeocodeRejected positionedState = positionedState \<and>
   step positionedState = capture \<and> error positionedState = [] \<and>
   streamRef positionedState = Some 1 \<and>
   \<not> enabled (CaptureClicked canvas) positionedState"
  using locatedState_reachable positionedState_reachable
  by (simp add: locatedState_value positionedState_value handleCapture_def videoRef_def
      stopCamera_def generating_effect_def truthy_def position_geocoded_def)

subsection \<open>Reset\<close>

text \<open>
  C7, where the code departs from it. \<^verbatim>\<open>handleReset\<close> sets the step to \<open>initial\<close>,
  clears the location, the error, the captured image, the certificate and the issue type
  and drops the camera stream, in every state; it leaves \<open>cmImageUrl\<close> as it was. After
  the session that ended with a certificate, the reset state still holds the image of
  the region, and is not the initial state.
\<close>

theorem reset_keeps_cmImageUrl:
  "step (handleReset s) = initial \<and> location (handleReset s) = None \<and>
   error (handleReset s) = [] \<and> capturedImage (handleReset s) = None \<and>
   generatedCertificate (handleReset s) = None \<and> issueType (handleReset s) = None \<and>
   streamRef (handleReset s) = None \<and>
   cmImageUrl (handleReset s) = cmImageUrl s \<and>
   reachable resultState \<and> enabled ResetClicked resultState \<and>
   cmImageUrl (handleReset resultState) =
     Some ''https://upload.wikimedia.org/wikipedia/commons/f/f8/Bhagwant_Mann.png'' \<and>
   cmImageUrl initialState = None \<and>
   handleReset resultState \<noteq> initialState"
proof -
  have "cmImageUrl (handleReset resultState) \<noteq> cmImageUrl initialState"
    by (simp add: handleReset_def stopCamera_fields resultState_value initialState_def)
  then have "handleReset resultState \<noteq> initialState"
    by metis
  then show ?thesis
    using resultState_reachable
    by (simp add: handleReset_def stopCamera_fields stopCamera_streamRef resultState_value
        initialState_def truthy_def)
qed

subsection \<open>A failed position request\<close>

text \<open>
  C6. Whatever the state and the error code, the error callback of the position request
  leaves the step \<open>initial\<close>, no camera stream held, and the message of the code as the
  error; the messages of the codes 1 (permission denied), 2 (position unavailable) and
  3 (timeout) are three different texts, and that of the timeout is its own.
\<close>

theorem geolocation_failure_handled:
  "step (position_error code s) = initial \<and>
   streamRef (position_error code s) = None \<and>
   error (position_error code s) = geolocationErrorMessage code \<and>
   geolocationErrorMessage code \<noteq> [] \<and>
   geolocationErrorMessage 1 \<noteq> geolocationErrorMessage 2 \<and>
   geolocationErrorMessage 1 \<noteq> geolocationErrorMessage 3 \<and>
   geolocationErrorMessage 2 \<noteq> geolocationErrorMessage 3 \<and>
   geolocationErrorMessage 3 =
     ''Failed to get your location in time. Please check your network connection and try again.''"
  by (simp add: position_error_def stopCamera_streamRef stopCamera_fields
      geolocationErrorMessage_def)

end
